theory Spec2Isabelle
  imports Complex_Main "HOL-Library.Multiset"
begin

section \<open>The notebooks\<close>

text \<open>
  The repository consists of two notebooks. \<^verbatim>\<open>IncExpectationExample.ipynb\<close> defines
  \<^verbatim>\<open>runRoszypalSchlaffmanExperiment\<close>; the second notebook builds the list
  \<^verbatim>\<open>MyTypes\<close> and pools it. Both drive the HARK library, which is not part of the
  repository: its entry points are parameters of the model (the record \<open>HARK\<close> below).
  Python floats are read as real numbers, Python integers as \<open>int\<close> or \<open>nat\<close>.
\<close>

subsection \<open>Configuration dictionary and agent object\<close>

text \<open>
  The entries of \<^verbatim>\<open>BaselineDict\<close> that the notebook code reads or writes; every other
  entry is carried along unchanged in \<open>other\<close>.
\<close>

record 'o params =
  DiscFac :: real
  PrstIncCorr :: real
  AgentCount :: int
  T_sim :: int
  other :: 'o

definition BaselineDict :: "'o \<Rightarrow> 'o params" where
  "BaselineDict rest =
     \<lparr>DiscFac = 0.97, PrstIncCorr = 0.99, AgentCount = 10000, T_sim = 1200, other = rest\<rparr>"

text \<open>
  An agent type is a Python object: its attributes are the constructor's keyword
  arguments, the seed, the function \<^verbatim>\<open>pLvlNextFunc\<close> that the library derives from the
  parameters, the grid of persistent income levels that the library builds at
  construction (the dictionary passes its percentiles, \<^verbatim>\<open>pLvlPctiles\<close>), the solution,
  and the four arrays of the most recent simulated period (which the library creates on
  \<^verbatim>\<open>initializeSim\<close>; they are empty until then).
\<close>

record ('f, 'g, 'p, 'o) agent =
  parameters :: "'o params"
  seed :: int
  pLvlNextFunc :: 'f
  pLvlGrid :: 'g
  solution :: "'p option"
  cLvlNow :: "real list"
  aLvlNow :: "real list"
  MPCnow :: "real list"
  pLvlNow :: "real list"

text \<open>
  What the notebooks call in the library. Each method reads the object it is called on
  and writes the attributes named here.
\<close>

record ('f, 'g, 'p, 'o) HARK =
  Uniform_approx :: "real \<Rightarrow> real \<Rightarrow> nat \<Rightarrow> real list"
  init_seed :: int
  pLvlNextFunc_of :: "'o params \<Rightarrow> 'f"
  pLvlGrid_of :: "'f \<Rightarrow> 'o \<Rightarrow> 'g"
  solver :: "('f, 'g, 'p, 'o) agent \<Rightarrow> 'p"
  sim_init :: "('f, 'g, 'p, 'o) agent \<Rightarrow> real list \<times> real list \<times> real list \<times> real list"
  sim_run :: "('f, 'g, 'p, 'o) agent \<Rightarrow> real list \<times> real list \<times> real list \<times> real list"
  getLorenzShares :: "real list \<Rightarrow> real list \<Rightarrow> real list"
  calcSubpopAvg :: "real list \<Rightarrow> real list \<Rightarrow> (real \<times> real) list \<Rightarrow> real list"

text \<open>
  \<^verbatim>\<open>PersistentShockConsumerTypeX(**ThisDict)\<close>: the keyword arguments become the
  parameters, no seed is passed, and construction ends with the library's update, which
  builds \<^verbatim>\<open>pLvlNextFunc\<close> from the parameters (the function that line 190 of the
  notebook then replaces) and, from that function and the other entries of the
  dictionary, the grid of persistent income levels. The notebook never rebuilds the
  grid: \<^verbatim>\<open>updatepLvlNextFunc\<close> writes \<^verbatim>\<open>pLvlNextFunc\<close> only.
\<close>

definition construct :: "('f, 'g, 'p, 'o) HARK \<Rightarrow> 'o params \<Rightarrow> ('f, 'g, 'p, 'o) agent" where
  "construct lib d =
     \<lparr>parameters = d, seed = init_seed lib, pLvlNextFunc = pLvlNextFunc_of lib d,
      pLvlGrid = pLvlGrid_of lib (pLvlNextFunc_of lib d) (other d),
      solution = None, cLvlNow = [], aLvlNow = [], MPCnow = [], pLvlNow = []\<rparr>"

definition set_PrstIncCorr :: "real \<Rightarrow> ('f, 'g, 'p, 'o) agent \<Rightarrow> ('f, 'g, 'p, 'o) agent" where
  "set_PrstIncCorr c t = t\<lparr>parameters := (parameters t)\<lparr>PrstIncCorr := c\<rparr>\<rparr>"

definition set_T_sim :: "int \<Rightarrow> ('f, 'g, 'p, 'o) agent \<Rightarrow> ('f, 'g, 'p, 'o) agent" where
  "set_T_sim n t = t\<lparr>parameters := (parameters t)\<lparr>T_sim := n\<rparr>\<rparr>"

definition set_DiscFac :: "real \<Rightarrow> ('f, 'g, 'p, 'o) agent \<Rightarrow> ('f, 'g, 'p, 'o) agent" where
  "set_DiscFac b t = t\<lparr>parameters := (parameters t)\<lparr>DiscFac := b\<rparr>\<rparr>"

definition updatepLvlNextFunc ::
  "('f, 'g, 'p, 'o) HARK \<Rightarrow> ('f, 'g, 'p, 'o) agent \<Rightarrow> ('f, 'g, 'p, 'o) agent" where
  "updatepLvlNextFunc lib t = t\<lparr>pLvlNextFunc := pLvlNextFunc_of lib (parameters t)\<rparr>"

definition solve :: "('f, 'g, 'p, 'o) HARK \<Rightarrow> ('f, 'g, 'p, 'o) agent \<Rightarrow> ('f, 'g, 'p, 'o) agent" where
  "solve lib t = t\<lparr>solution := Some (solver lib t)\<rparr>"

definition store_arrays ::
  "real list \<times> real list \<times> real list \<times> real list \<Rightarrow> ('f, 'g, 'p, 'o) agent \<Rightarrow> ('f, 'g, 'p, 'o) agent" where
  "store_arrays r t =
     (case r of (c, a, m, p) \<Rightarrow> t\<lparr>cLvlNow := c, aLvlNow := a, MPCnow := m, pLvlNow := p\<rparr>)"

definition initializeSim ::
  "('f, 'g, 'p, 'o) HARK \<Rightarrow> ('f, 'g, 'p, 'o) agent \<Rightarrow> ('f, 'g, 'p, 'o) agent" where
  "initializeSim lib t = store_arrays (sim_init lib t) t"

definition simulate :: "('f, 'g, 'p, 'o) HARK \<Rightarrow> ('f, 'g, 'p, 'o) agent \<Rightarrow> ('f, 'g, 'p, 'o) agent" where
  "simulate lib t = store_arrays (sim_run lib t) t"

subsection \<open>The experiment: building, solving and simulating the types\<close>

text \<open>The body of the loop over \<^verbatim>\<open>DiscFac_list\<close> (notebook lines 186 to 203).\<close>

definition solve_and_simulate ::
  "('f, 'g, 'p, 'o) HARK \<Rightarrow> real \<Rightarrow> real \<Rightarrow> 'o params \<Rightarrow> ('f, 'g, 'p, 'o) agent" where
  "solve_and_simulate lib CorrAct CorrPcvd ThisDict =
     (let ThisType = construct lib ThisDict;
          ThisType = set_PrstIncCorr CorrPcvd ThisType;
          ThisType = updatepLvlNextFunc lib ThisType;
          ThisType = solve lib ThisType;
          ThisType = set_PrstIncCorr CorrAct ThisType;
          ThisType = updatepLvlNextFunc lib ThisType;
          ThisType = set_T_sim 100 ThisType;
          ThisType = initializeSim lib ThisType;
          ThisType = simulate lib ThisType
      in ThisType)"

text \<open>
  The loop itself: \<^verbatim>\<open>for i in range(len(DiscFac_list))\<close>, writing
  \<^verbatim>\<open>ThisDict['DiscFac']\<close> and appending to \<^verbatim>\<open>type_list\<close>. The state is the pair of the
  dictionary and the list.
\<close>

fun type_loop ::
  "('f, 'g, 'p, 'o) HARK \<Rightarrow> real \<Rightarrow> real \<Rightarrow> real list \<Rightarrow> nat list \<Rightarrow>
   'o params \<times> ('f, 'g, 'p, 'o) agent list \<Rightarrow> 'o params \<times> ('f, 'g, 'p, 'o) agent list" where
  "type_loop lib CorrAct CorrPcvd DiscFac_list [] st = st"
| "type_loop lib CorrAct CorrPcvd DiscFac_list (i # rest) (ThisDict, type_list) =
     (let ThisDict = ThisDict\<lparr>DiscFac := DiscFac_list ! i\<rparr>;
          ThisType = solve_and_simulate lib CorrAct CorrPcvd ThisDict
      in type_loop lib CorrAct CorrPcvd DiscFac_list rest (ThisDict, type_list @ [ThisType]))"

definition experiment_types ::
  "('f, 'g, 'p, 'o) HARK \<Rightarrow> 'o params \<Rightarrow> real \<Rightarrow> real \<Rightarrow> real \<Rightarrow> real \<Rightarrow> ('f, 'g, 'p, 'o) agent list" where
  "experiment_types lib Baseline CorrAct CorrPcvd DiscFac_center DiscFac_spread =
     (let ThisDict = Baseline;
          ThisDict = ThisDict\<lparr>PrstIncCorr := CorrAct\<rparr>;
          DiscFac_list = Uniform_approx lib (DiscFac_center - DiscFac_spread)
                           (DiscFac_center + DiscFac_spread) 7
      in snd (type_loop lib CorrAct CorrPcvd DiscFac_list [0..<length DiscFac_list]
                (ThisDict, [])))"

subsection \<open>The experiment: pooling and statistics\<close>

text \<open>
  \<^verbatim>\<open>np.mean\<close>. Of an empty array numpy returns \<^verbatim>\<open>nan\<close>; the quotient below is then
  \<open>0 / 0\<close>, which is 0 in HOL. The experiment pools at least one agent whenever the
  library returns a type with a non-empty panel.
\<close>

definition np_mean :: "real list \<Rightarrow> real" where
  "np_mean xs = sum_list xs / real (length xs)"

text \<open>\<^verbatim>\<open>np.linspace(start, stop, num)\<close>, end point included.\<close>

definition linspace :: "real \<Rightarrow> real \<Rightarrow> nat \<Rightarrow> real list" where
  "linspace start stop num =
     map (\<lambda>i. start + real i * ((stop - start) / real (num - 1))) [0..<num]"

text \<open>\<^verbatim>\<open>np.concatenate([ThisType.X for ThisType in type_list])\<close>.\<close>

definition pooled :: "('a \<Rightarrow> real list) \<Rightarrow> 'a list \<Rightarrow> real list" where
  "pooled X type_list = concat (map X type_list)"

definition quintiles :: "(real \<times> real) list" where
  "quintiles = [(0.0, 0.2), (0.2, 0.4), (0.4, 0.6), (0.6, 0.8), (0.8, 1.0)]"

text \<open>
  Notebook lines 206 to 234. The result is the tuple
  \<^verbatim>\<open>(AggWealthRatio, Lorenz, Gini, Avg_MPC)\<close>; \<^verbatim>\<open>Lorenz\<close> is the stack of the two
  arrays. \<^verbatim>\<open>Lorenz_init[1]\<close> is one entry of the extended array, and \<^verbatim>\<open>np.mean\<close> of a
  single number is the mean of the one-element array.
\<close>

definition cross_section ::
  "(real list \<Rightarrow> real list \<Rightarrow> real list) \<Rightarrow>
   (real list \<Rightarrow> real list \<Rightarrow> (real \<times> real) list \<Rightarrow> real list) \<Rightarrow>
   ('f, 'g, 'p, 'o) agent list \<Rightarrow> real \<times> real list list \<times> real \<times> real list" where
  "cross_section getLorenzShares' calcSubpopAvg' type_list =
     (let cLvl_all = pooled cLvlNow type_list;
          aLvl_all = pooled aLvlNow type_list;
          MPC_all = pooled MPCnow type_list;
          pLvl_all = pooled pLvlNow type_list;
          AggWealthRatio = np_mean aLvl_all / np_mean pLvl_all;
          wealth_percentile = linspace 0.001 0.999 201;
          Lorenz_init = getLorenzShares' aLvl_all wealth_percentile;
          Lorenz_init = [0] @ Lorenz_init @ [1];
          wealth_percentile = [0] @ wealth_percentile @ [1];
          Lorenz = [wealth_percentile, Lorenz_init];
          Gini = 1.0 - 2.0 * np_mean [Lorenz_init ! 1];
          Avg_MPC = calcSubpopAvg' MPC_all pLvl_all quintiles
      in (AggWealthRatio, Lorenz, Gini, Avg_MPC))"

definition runRoszypalSchlaffmanExperiment ::
  "('f, 'g, 'p, 'o) HARK \<Rightarrow> 'o params \<Rightarrow> real \<Rightarrow> real \<Rightarrow> real \<Rightarrow> real \<Rightarrow>
   real \<times> real list list \<times> real \<times> real list" where
  "runRoszypalSchlaffmanExperiment lib Baseline CorrAct CorrPcvd DiscFac_center DiscFac_spread =
     cross_section (getLorenzShares lib) (calcSubpopAvg lib)
       (experiment_types lib Baseline CorrAct CorrPcvd DiscFac_center DiscFac_spread)"

subsection \<open>The second notebook: \<^verbatim>\<open>MyTypes\<close>\<close>

text \<open>
  \<^verbatim>\<open>for nn in range(num_types)\<close>: a deep copy of \<^verbatim>\<open>BaselineType\<close> with its discount
  factor and its seed overwritten.
\<close>

fun MyTypes_loop ::
  "('f, 'g, 'p, 'o) agent \<Rightarrow> real list \<Rightarrow> nat list \<Rightarrow> ('f, 'g, 'p, 'o) agent list \<Rightarrow> ('f, 'g, 'p, 'o) agent list" where
  "MyTypes_loop BaselineType DiscFac_dstn [] MyTypes = MyTypes"
| "MyTypes_loop BaselineType DiscFac_dstn (nn # rest) MyTypes =
     (let NewType = BaselineType;
          NewType = set_DiscFac (DiscFac_dstn ! nn) NewType;
          NewType = NewType\<lparr>seed := int nn\<rparr>
      in MyTypes_loop BaselineType DiscFac_dstn rest (MyTypes @ [NewType]))"

definition MyTypes :: "('f, 'g, 'p, 'o) agent \<Rightarrow> real list \<Rightarrow> nat \<Rightarrow> ('f, 'g, 'p, 'o) agent list" where
  "MyTypes BaselineType DiscFac_dstn num_types =
     MyTypes_loop BaselineType DiscFac_dstn [0..<num_types] []"

subsection \<open>Definitions used to state the properties\<close>

text \<open>
  The solve/simulate cycle of the loop body with the belief override left out: neither
  the perceived persistence is written before \<^verbatim>\<open>solve\<close> nor the actual one restored
  after it. The notebook does not contain this variant; it is what the experiment is
  compared with when perceived and actual persistence coincide.
\<close>

definition solve_and_simulate_without_override ::
  "('f, 'g, 'p, 'o) HARK \<Rightarrow> 'o params \<Rightarrow> ('f, 'g, 'p, 'o) agent" where
  "solve_and_simulate_without_override lib ThisDict =
     (let ThisType = construct lib ThisDict;
          ThisType = solve lib ThisType;
          ThisType = set_T_sim 100 ThisType;
          ThisType = initializeSim lib ThisType;
          ThisType = simulate lib ThisType
      in ThisType)"

text \<open>
  A simulated type whose four arrays have one entry per agent, as the library's
  simulator returns them.
\<close>

definition panel_ok :: "('f, 'g, 'p, 'o) agent \<Rightarrow> bool" where
  "panel_ok t \<longleftrightarrow>
     int (length (cLvlNow t)) = AgentCount (parameters t) \<and>
     int (length (aLvlNow t)) = AgentCount (parameters t) \<and>
     int (length (MPCnow t)) = AgentCount (parameters t) \<and>
     int (length (pLvlNow t)) = AgentCount (parameters t)"

section \<open>The library's contracts\<close>

text \<open>
  The discretisation of a distribution and the distributional statistics are library
  code that the notebooks import; the repository does not contain them. The definitions
  of this section follow the specification's description of these components.
\<close>

text \<open>
  Modelled from the spec: the errors of the specification's taxonomy that these
  components raise (the library's own exceptions are missing from the repository).
\<close>

datatype error =
  InvalidDistributionError | EmptySampleError | InvalidWeightError | EmptyBucketError

subsection \<open>Distribution Discretizer\<close>

text \<open>
  Modelled from the spec: the inverse cumulative distribution function of the uniform
  distribution on the bounds \<open>[center - spread, center + spread]\<close> (the library's
  \<^verbatim>\<open>Uniform\<close> class is missing from the repository).
\<close>

definition inverse_cdf :: "real \<Rightarrow> real \<Rightarrow> real \<Rightarrow> real" where
  "inverse_cdf center spread q =
     (center - spread) + q * ((center + spread) - (center - spread))"

text \<open>
  Modelled from the spec: the equiprobable-bin midpoints of \<^verbatim>\<open>Uniform.approx\<close>, which
  is missing from the repository: the cumulative probability axis is cut into \<open>N\<close>
  bins of equal width, and bin \<open>i\<close> gives the inverse CDF at its midpoint probability.
\<close>

definition bin_midpoints :: "real \<Rightarrow> real \<Rightarrow> nat \<Rightarrow> real list" where
  "bin_midpoints center spread N =
     map (\<lambda>i. inverse_cdf center spread ((real i + 1 / 2) / real N)) [0..<N]"

text \<open>
  Modelled from the spec: the contract of the Distribution Discretizer
  (\<^verbatim>\<open>Uniform(bot, top).approx(N)\<close>, missing from the repository): \<open>N\<close> values and \<open>N\<close>
  equal weights \<open>1/N\<close>, and \<^verbatim>\<open>InvalidDistributionError\<close> when \<open>N \<le> 0\<close> or
  \<open>spread < 0\<close>.
\<close>

definition Discretizer :: "real \<Rightarrow> real \<Rightarrow> int \<Rightarrow> error + real list \<times> real list" where
  "Discretizer center spread N =
     (if N \<le> 0 \<or> spread < 0 then Inl InvalidDistributionError
      else Inr (bin_midpoints center spread (nat N), replicate (nat N) (1 / real_of_int N)))"

subsection \<open>Distributional Statistics\<close>

text \<open>
  Modelled from the spec: the EmpiricalDistribution of the data model, the
  sorted-by-value view of a (values, weights) pair (library code, missing from the
  repository).
\<close>

definition EmpiricalDistribution :: "real list \<Rightarrow> real list \<Rightarrow> (real \<times> real) list" where
  "EmpiricalDistribution vals weights = sort_key fst (zip vals weights)"

text \<open>
  Modelled from the spec: the value held by the bottom part of the sorted population
  whose weight is \<open>m\<close> (part of \<^verbatim>\<open>getLorenzShares\<close>, missing from the repository). An
  agent of weight \<open>w\<close> holds \<open>v\<close> per unit of weight; the part of the agent that lies
  in the bottom \<open>m\<close> has weight \<open>min w (max 0 m)\<close>.
\<close>

fun held_by_bottom :: "real \<Rightarrow> (real \<times> real) list \<Rightarrow> real" where
  "held_by_bottom m [] = 0"
| "held_by_bottom m ((v, w) # rest) = v * min w (max 0 m) + held_by_bottom (m - w) rest"

text \<open>
  Modelled from the spec: the total value of a weighted sample, the denominator of the
  Lorenz shares (part of \<^verbatim>\<open>getLorenzShares\<close>, missing from the repository).
\<close>

definition total_value :: "(real \<times> real) list \<Rightarrow> real" where
  "total_value pairs = sum_list (map (\<lambda>(v, w). v * w) pairs)"

text \<open>
  Modelled from the spec: the total weight of a weighted sample, against which cumulative
  weight shares are measured (library code, missing from the repository).
\<close>

definition total_weight :: "(real \<times> real) list \<Rightarrow> real" where
  "total_weight pairs = sum_list (map snd pairs)"

text \<open>
  Modelled from the spec: LorenzShares(values, weights, percentiles)
  (\<^verbatim>\<open>getLorenzShares\<close>, missing from the repository): for each requested percentile
  \<open>p\<close>, the cumulative share of total value held by the bottom \<open>p\<close> fraction of the
  sorted population.
\<close>

definition LorenzShares :: "real list \<Rightarrow> real list \<Rightarrow> real list \<Rightarrow> real list" where
  "LorenzShares vals weights percentiles =
     (let pairs = EmpiricalDistribution vals weights
      in map (\<lambda>p. held_by_bottom (p * total_weight pairs) pairs / total_value pairs) percentiles)"

text \<open>
  Modelled from the spec: \<^verbatim>\<open>getLorenzShares\<close> called without weights, as the notebooks
  do: every agent has the same weight.
\<close>

definition LorenzShares_unweighted :: "real list \<Rightarrow> real list \<Rightarrow> real list" where
  "LorenzShares_unweighted vals percentiles =
     LorenzShares vals (replicate (length vals) 1) percentiles"

text \<open>
  Modelled from the spec: Gini(lorenzShares), in the specification's words
  \<open>1 - 2 \<times> mean(lorenzShares)\<close>, for comparison with the number the notebook computes.
\<close>

definition Gini_spec :: "real list \<Rightarrow> real" where
  "Gini_spec lorenzShares = 1 - 2 * np_mean lorenzShares"

text \<open>
  Modelled from the spec: the search of WeightedPercentile (library code, missing from
  the repository) through the sorted pairs: the first value whose cumulative weight share
  reaches \<open>p\<close>. \<open>cum\<close> is the weight of the pairs already passed, \<open>W\<close> the total weight.
\<close>

fun first_reaching :: "real \<Rightarrow> real \<Rightarrow> real \<Rightarrow> (real \<times> real) list \<Rightarrow> real option" where
  "first_reaching p W cum [] = None"
| "first_reaching p W cum ((v, w) # rest) =
     (if p \<le> (cum + w) / W then Some v else first_reaching p W (cum + w) rest)"

text \<open>
  Modelled from the spec: WeightedPercentile(values, weights, p) (\<^verbatim>\<open>getPercentiles\<close>,
  missing from the repository): the smallest value whose cumulative share is at least
  \<open>p\<close>; \<^verbatim>\<open>EmptySampleError\<close> on empty input, \<^verbatim>\<open>InvalidWeightError\<close> if a weight is
  negative or the total weight is zero. The specification does not say what is returned
  when no cumulative share reaches \<open>p\<close> (that is, \<open>p > 1\<close>); the largest value is
  returned then.
\<close>

definition WeightedPercentile :: "real list \<Rightarrow> real list \<Rightarrow> real \<Rightarrow> error + real" where
  "WeightedPercentile vals weights p =
     (let pairs = EmpiricalDistribution vals weights
      in if pairs = [] then Inl EmptySampleError
         else if list_ex (\<lambda>w. w < 0) weights \<or> sum_list weights = 0 then Inl InvalidWeightError
         else (case first_reaching p (total_weight pairs) 0 pairs of
                 Some v \<Rightarrow> Inr v
               | None \<Rightarrow> Inr (fst (last pairs))))"

text \<open>
  Modelled from the spec: the bucket of SubpopulationAverage (\<^verbatim>\<open>calcSubpopAvg\<close>, missing
  from the repository): the target values of the agents whose grouping value lies in the
  range \<open>[lo_v, hi_v]\<close>, both ends included.
\<close>

definition bucket :: "real list \<Rightarrow> real list \<Rightarrow> real \<Rightarrow> real \<Rightarrow> real list" where
  "bucket targetValues groupValues lo_v hi_v =
     map fst (filter (\<lambda>(t, g). lo_v \<le> g \<and> g \<le> hi_v) (zip targetValues groupValues))"

text \<open>
  Modelled from the spec: one cutoff pair of SubpopulationAverage (\<^verbatim>\<open>calcSubpopAvg\<close>,
  missing from the repository): the range is given by the percentiles of the grouping
  variable's own distribution, the result is the unweighted mean of the bucket, and an
  empty bucket is \<^verbatim>\<open>EmptyBucketError\<close>.
\<close>

definition bucket_average :: "real list \<Rightarrow> real list \<Rightarrow> real \<times> real \<Rightarrow> error + real" where
  "bucket_average targetValues groupValues cutoff =
     (case WeightedPercentile groupValues (replicate (length groupValues) 1) (fst cutoff) of
        Inl e \<Rightarrow> Inl e
      | Inr lo_v \<Rightarrow>
          (case WeightedPercentile groupValues (replicate (length groupValues) 1) (snd cutoff) of
             Inl e \<Rightarrow> Inl e
           | Inr hi_v \<Rightarrow>
               (if bucket targetValues groupValues lo_v hi_v = [] then Inl EmptyBucketError
                else Inr (np_mean (bucket targetValues groupValues lo_v hi_v)))))"

text \<open>
  Modelled from the spec: SubpopulationAverage(targetValues, groupValues, cutoffs)
  (\<^verbatim>\<open>calcSubpopAvg\<close>, missing from the repository): one average per cutoff pair, in
  input order; the first error aborts the computation.
\<close>

fun SubpopulationAverage ::
  "real list \<Rightarrow> real list \<Rightarrow> (real \<times> real) list \<Rightarrow> error + real list" where
  "SubpopulationAverage targetValues groupValues [] = Inr []"
| "SubpopulationAverage targetValues groupValues (cutoff # cutoffs) =
     (case bucket_average targetValues groupValues cutoff of
        Inl e \<Rightarrow> Inl e
      | Inr a \<Rightarrow>
          (case SubpopulationAverage targetValues groupValues cutoffs of
             Inl e \<Rightarrow> Inl e
           | Inr as \<Rightarrow> Inr (a # as)))"

subsection \<open>A small library instance\<close>

text \<open>
  A concrete library on which the theorems below are instantiated: the discretiser is
  the one above, the solver returns a number that depends on the discount factor, on
  \<^verbatim>\<open>pLvlNextFunc\<close> and on the grid, and the simulator returns one-agent arrays that
  show the horizon, the discount factor, the persistence and the policy it was given.
\<close>

definition small_HARK :: "(real, real, real, unit) HARK" where
  "small_HARK =
     \<lparr>Uniform_approx = (\<lambda>bot top N. bin_midpoints ((bot + top) / 2) ((top - bot) / 2) N),
      init_seed = 0,
      pLvlNextFunc_of = PrstIncCorr,
      pLvlGrid_of = (\<lambda>f rest. f),
      solver = (\<lambda>t. DiscFac (parameters t) * pLvlNextFunc t + pLvlGrid t),
      sim_init = (\<lambda>t. ([0], [0], [0], [0])),
      sim_run = (\<lambda>t. ([real_of_int (T_sim (parameters t))], [DiscFac (parameters t)],
                       [pLvlNextFunc t], [case solution t of None \<Rightarrow> 0 | Some c \<Rightarrow> c])),
      getLorenzShares = LorenzShares_unweighted,
      calcSubpopAvg = (\<lambda>target group cutoffs. [])\<rparr>"

text \<open>
  Three simulated types with panels of different sizes. The first two are the two types
  of the specification's end-to-end scenario (assets 2, 4 and 6, 8; income 1 each); the
  last one is a population of four agents who hold the same wealth.
\<close>

definition type_A :: "(unit, unit, unit, unit) agent" where
  "type_A =
     \<lparr>parameters = (BaselineDict ())\<lparr>AgentCount := 2\<rparr>, seed = 0, pLvlNextFunc = (), pLvlGrid = (),
      solution = None, cLvlNow = [1, 3], aLvlNow = [2, 4], MPCnow = [1 / 2, 1 / 4],
      pLvlNow = [1, 1]\<rparr>"

definition type_B :: "(unit, unit, unit, unit) agent" where
  "type_B =
     \<lparr>parameters = (BaselineDict ())\<lparr>AgentCount := 2\<rparr>, seed = 1, pLvlNextFunc = (), pLvlGrid = (),
      solution = None, cLvlNow = [5, 7], aLvlNow = [6, 8], MPCnow = [1 / 8, 1 / 16],
      pLvlNow = [1, 1]\<rparr>"

definition type_E :: "(unit, unit, unit, unit) agent" where
  "type_E =
     \<lparr>parameters = (BaselineDict ())\<lparr>AgentCount := 4\<rparr>, seed = 2, pLvlNextFunc = (), pLvlGrid = (),
      solution = None, cLvlNow = [1, 1, 1, 1], aLvlNow = [5, 5, 5, 5],
      MPCnow = [1 / 10, 1 / 10, 1 / 10, 1 / 10], pLvlNow = [1, 1, 1, 1]\<rparr>"

section \<open>Properties of the notebooks\<close>

subsection \<open>The loops as maps\<close>

lemma snd_type_loop:
  "snd (type_loop lib A P L js (d, ts)) =
     ts @ map (\<lambda>i. solve_and_simulate lib A P (d\<lparr>DiscFac := L ! i\<rparr>)) js"
proof (induction js arbitrary: d ts)
  case Nil
  show ?case by simp
next
  case (Cons i js)
  have "snd (type_loop lib A P L (i # js) (d, ts)) =
        snd (type_loop lib A P L js (d\<lparr>DiscFac := L ! i\<rparr>,
               ts @ [solve_and_simulate lib A P (d\<lparr>DiscFac := L ! i\<rparr>)]))"
    by (simp only: type_loop.simps Let_def)
  also have "\<dots> = (ts @ [solve_and_simulate lib A P (d\<lparr>DiscFac := L ! i\<rparr>)]) @
        map (\<lambda>j. solve_and_simulate lib A P (d\<lparr>DiscFac := L ! i, DiscFac := L ! j\<rparr>)) js"
    by (rule Cons.IH)
  also have "\<dots> = ts @ map (\<lambda>j. solve_and_simulate lib A P (d\<lparr>DiscFac := L ! j\<rparr>)) (i # js)"
    by simp
  finally show ?case .
qed

lemma experiment_types_map:
  "experiment_types lib Baseline A P c s =
     map (\<lambda>b. solve_and_simulate lib A P (Baseline\<lparr>PrstIncCorr := A, DiscFac := b\<rparr>))
       (Uniform_approx lib (c - s) (c + s) 7)"
proof -
  have "map (\<lambda>i. f (L ! i)) [0..<length L] = map f L"
    for f :: "real \<Rightarrow> ('a, 'b, 'c, 'd) agent" and L
    by (rule nth_equalityI) simp_all
  then show ?thesis
    by (simp add: experiment_types_def Let_def snd_type_loop)
qed

lemma MyTypes_loop_map:
  "MyTypes_loop base dstn js acc =
     acc @ map (\<lambda>nn. (set_DiscFac (dstn ! nn) base)\<lparr>seed := int nn\<rparr>) js"
  by (induction js arbitrary: acc) (simp_all add: Let_def)

lemma solve_and_simulate_unfold:
  "solve_and_simulate lib CorrAct CorrPcvd d =
     simulate lib (initializeSim lib (set_T_sim 100
       ((construct lib d)
          \<lparr>parameters := d\<lparr>PrstIncCorr := CorrAct\<rparr>,
           pLvlNextFunc := pLvlNextFunc_of lib (d\<lparr>PrstIncCorr := CorrAct\<rparr>),
           solution := Some (solver lib
             ((construct lib d)
                \<lparr>parameters := d\<lparr>PrstIncCorr := CorrPcvd\<rparr>,
                 pLvlNextFunc := pLvlNextFunc_of lib (d\<lparr>PrstIncCorr := CorrPcvd\<rparr>)\<rparr>))\<rparr>)))"
  by (simp add: solve_and_simulate_def Let_def construct_def set_PrstIncCorr_def
      updatepLvlNextFunc_def solve_def set_T_sim_def)

lemma parameters_simulated [simp]:
  "parameters (simulate lib t) = parameters t"
  "parameters (initializeSim lib t) = parameters t"
  "seed (simulate lib t) = seed t"
  "seed (initializeSim lib t) = seed t"
  by (simp_all add: simulate_def initializeSim_def store_arrays_def split: prod.splits)

lemma untouched_by_simulation [simp]:
  "solution (simulate lib t) = solution t"
  "solution (initializeSim lib t) = solution t"
  "pLvlNextFunc (simulate lib t) = pLvlNextFunc t"
  "pLvlNextFunc (initializeSim lib t) = pLvlNextFunc t"
  "pLvlGrid (simulate lib t) = pLvlGrid t"
  "pLvlGrid (initializeSim lib t) = pLvlGrid t"
  by (simp_all add: simulate_def initializeSim_def store_arrays_def split: prod.splits)

lemma simulated_with_horizon_100:
  "\<exists>t0. T_sim (parameters t0) = 100 \<and>
     solve_and_simulate lib A P d = simulate lib (initializeSim lib t0)"
  unfolding solve_and_simulate_unfold
  by (rule exI, rule conjI[rotated], rule refl) (simp add: set_T_sim_def)

subsection \<open>Seeds\<close>

text \<open>
  In the second notebook every type of \<^verbatim>\<open>MyTypes\<close> gets its index as seed, so the
  seeds are pairwise different.
\<close>

lemma MyTypes_seeds: "map seed (MyTypes base dstn n) = map int [0..<n]"
  by (simp add: MyTypes_def MyTypes_loop_map o_def)

lemma MyTypes_seeds_distinct: "distinct (map seed (MyTypes base dstn n))"
  by (simp add: MyTypes_seeds distinct_map inj_on_def)

lemma seed_solve_and_simulate: "seed (solve_and_simulate lib A P d) = init_seed lib"
  by (simp add: solve_and_simulate_unfold set_T_sim_def construct_def)

text \<open>
  Claim C2. The claim says that every list of types that is simulated, the list built
  inside \<^verbatim>\<open>runRoszypalSchlaffmanExperiment\<close> included, carries the type index as a
  unique seed. \<^verbatim>\<open>MyTypes\<close> does (lemma \<open>MyTypes_seeds\<close>); the experiment never
  assigns a seed: every one of its types keeps the seed the constructor gave it, so all
  types share one seed. For the notebook's own call, with the discretiser of the
  specification and a constructor seed of 0, the seven seeds are all 0.
\<close>

theorem experiment_types_share_seed:
  "map seed (experiment_types lib Baseline CorrAct CorrPcvd DiscFac_center DiscFac_spread) =
     replicate (length (Uniform_approx lib (DiscFac_center - DiscFac_spread)
                          (DiscFac_center + DiscFac_spread) 7))
       (init_seed lib) \<and>
   map seed (experiment_types small_HARK (BaselineDict ()) 0.97 0.9831 0.9867 0.0067) =
     [0, 0, 0, 0, 0, 0, 0]"
  by (simp add: experiment_types_map seed_solve_and_simulate o_def map_replicate_const
      small_HARK_def bin_midpoints_def eval_nat_numeral)

subsection \<open>Perceived and actual persistence\<close>

text \<open>
  Claim C3, for the attributes the notebook writes. The type is constructed from the
  dictionary with \<open>PrstIncCorr = CorrAct\<close>. While the problem is solved, its parameter
  \<open>PrstIncCorr\<close> and its \<^verbatim>\<open>pLvlNextFunc\<close> are the perceived ones and everything else,
  the grid of persistent income levels included, is as constructed. The simulation runs
  on the type as constructed under the actual persistence, holding that policy and the
  horizon 100: its parameter, its \<^verbatim>\<open>pLvlNextFunc\<close> and its grid are the actual ones.
\<close>

theorem perceived_parameter_for_solve_actual_for_simulate:
  "solve_and_simulate lib CorrAct CorrPcvd (ThisDict\<lparr>PrstIncCorr := CorrAct\<rparr>) =
     (let constructed = construct lib (ThisDict\<lparr>PrstIncCorr := CorrAct\<rparr>);
          believing = constructed
            \<lparr>parameters := ThisDict\<lparr>PrstIncCorr := CorrPcvd\<rparr>,
             pLvlNextFunc := pLvlNextFunc_of lib (ThisDict\<lparr>PrstIncCorr := CorrPcvd\<rparr>)\<rparr>;
          policy = solver lib believing;
          experiencing = set_T_sim 100 (constructed\<lparr>solution := Some policy\<rparr>)
      in simulate lib (initializeSim lib experiencing)) \<and>
   PrstIncCorr (parameters (solve_and_simulate lib CorrAct CorrPcvd
      (ThisDict\<lparr>PrstIncCorr := CorrAct\<rparr>))) = CorrAct \<and>
   pLvlNextFunc (solve_and_simulate lib CorrAct CorrPcvd (ThisDict\<lparr>PrstIncCorr := CorrAct\<rparr>)) =
     pLvlNextFunc_of lib (ThisDict\<lparr>PrstIncCorr := CorrAct\<rparr>) \<and>
   pLvlGrid (solve_and_simulate lib CorrAct CorrPcvd (ThisDict\<lparr>PrstIncCorr := CorrAct\<rparr>)) =
     pLvlGrid_of lib (pLvlNextFunc_of lib (ThisDict\<lparr>PrstIncCorr := CorrAct\<rparr>)) (other ThisDict)"
proof (intro conjI)
  show "solve_and_simulate lib CorrAct CorrPcvd (ThisDict\<lparr>PrstIncCorr := CorrAct\<rparr>) =
     (let constructed = construct lib (ThisDict\<lparr>PrstIncCorr := CorrAct\<rparr>);
          believing = constructed
            \<lparr>parameters := ThisDict\<lparr>PrstIncCorr := CorrPcvd\<rparr>,
             pLvlNextFunc := pLvlNextFunc_of lib (ThisDict\<lparr>PrstIncCorr := CorrPcvd\<rparr>)\<rparr>;
          policy = solver lib believing;
          experiencing = set_T_sim 100 (constructed\<lparr>solution := Some policy\<rparr>)
      in simulate lib (initializeSim lib experiencing))"
    by (simp add: solve_and_simulate_unfold Let_def) (simp add: construct_def)
  show "PrstIncCorr (parameters (solve_and_simulate lib CorrAct CorrPcvd
      (ThisDict\<lparr>PrstIncCorr := CorrAct\<rparr>))) = CorrAct"
    by (simp add: solve_and_simulate_unfold set_T_sim_def)
  show "pLvlNextFunc (solve_and_simulate lib CorrAct CorrPcvd (ThisDict\<lparr>PrstIncCorr := CorrAct\<rparr>)) =
     pLvlNextFunc_of lib (ThisDict\<lparr>PrstIncCorr := CorrAct\<rparr>)"
    by (simp add: solve_and_simulate_unfold set_T_sim_def)
  show "pLvlGrid (solve_and_simulate lib CorrAct CorrPcvd (ThisDict\<lparr>PrstIncCorr := CorrAct\<rparr>)) =
     pLvlGrid_of lib (pLvlNextFunc_of lib (ThisDict\<lparr>PrstIncCorr := CorrAct\<rparr>)) (other ThisDict)"
    by (simp add: solve_and_simulate_unfold set_T_sim_def construct_def)
qed

text \<open>
  Claim C3 as stated fails: the policy is not computed entirely under the perceived
  persistence. On the small library, whose solver reads the grid as well, two cycles
  with the same perceived persistence \<open>3/4\<close> and the actual persistences \<open>1/2\<close> and
  \<open>1/4\<close> end with different policies.
\<close>

theorem policy_depends_on_actual_persistence:
  "solution (solve_and_simulate small_HARK (1 / 2) (3 / 4) ((BaselineDict ())\<lparr>PrstIncCorr := 1 / 2\<rparr>)) \<noteq>
   solution (solve_and_simulate small_HARK (1 / 4) (3 / 4) ((BaselineDict ())\<lparr>PrstIncCorr := 1 / 4\<rparr>))"
  by (simp add: solve_and_simulate_unfold set_T_sim_def construct_def small_HARK_def
      BaselineDict_def)

text \<open>
  Claim C4. When the perceived persistence equals the actual one, every type the
  experiment produces (its simulated arrays included) is the type produced by the same
  cycle with the override left out.
\<close>

theorem equal_beliefs_match_no_override:
  "experiment_types lib Baseline CorrAct CorrAct DiscFac_center DiscFac_spread =
     map (\<lambda>b. solve_and_simulate_without_override lib
                 (Baseline\<lparr>PrstIncCorr := CorrAct, DiscFac := b\<rparr>))
       (Uniform_approx lib (DiscFac_center - DiscFac_spread)
          (DiscFac_center + DiscFac_spread) 7)"
proof -
  have "solve_and_simulate lib CorrAct CorrAct d = solve_and_simulate_without_override lib d"
    if "PrstIncCorr d = CorrAct" for d :: "'d params"
  proof -
    from that have "d\<lparr>PrstIncCorr := CorrAct\<rparr> = d"
      by (cases d) simp
    then show ?thesis
      by (simp add: solve_and_simulate_unfold solve_and_simulate_without_override_def
          Let_def solve_def) (simp add: construct_def)
  qed
  then show ?thesis
    by (simp add: experiment_types_map)
qed

subsection \<open>The simulation horizon\<close>

lemma T_sim_ignored:
  assumes sol: "\<And>t n. solver lib (set_T_sim n t) = solver lib t"
    and nxt: "\<And>d n. pLvlNextFunc_of lib (d\<lparr>T_sim := n\<rparr>) = pLvlNextFunc_of lib d"
  shows "solve_and_simulate lib A P (d\<lparr>T_sim := h\<rparr>) = solve_and_simulate lib A P d"
proof -
  have n: "pLvlNextFunc_of lib (d\<lparr>T_sim := h, PrstIncCorr := x\<rparr>) =
      pLvlNextFunc_of lib (d\<lparr>PrstIncCorr := x\<rparr>)" for x
    using nxt[where d = "d\<lparr>PrstIncCorr := x\<rparr>" and n = h]
    by (cases d) simp
  have ord: "d\<lparr>T_sim := h, PrstIncCorr := x\<rparr> = (d\<lparr>PrstIncCorr := x\<rparr>)\<lparr>T_sim := h\<rparr>" for x
    by (cases d) simp
  have b: "(construct lib (d\<lparr>T_sim := h\<rparr>))
        \<lparr>parameters := d\<lparr>T_sim := h, PrstIncCorr := x\<rparr>,
         pLvlNextFunc := pLvlNextFunc_of lib (d\<lparr>T_sim := h, PrstIncCorr := x\<rparr>)\<rparr> =
      set_T_sim h ((construct lib d)
        \<lparr>parameters := d\<lparr>PrstIncCorr := x\<rparr>,
         pLvlNextFunc := pLvlNextFunc_of lib (d\<lparr>PrstIncCorr := x\<rparr>)\<rparr>)" for x
    by (simp add: n construct_def set_T_sim_def nxt ord)
  show ?thesis
    by (simp add: solve_and_simulate_unfold b sol) (simp add: set_T_sim_def)
qed

text \<open>
  Claim C10. Whatever horizon the baseline dictionary configures (1200 in
  \<^verbatim>\<open>BaselineDict\<close>), every type of the experiment is the result of
  \<^verbatim>\<open>initializeSim\<close> and \<^verbatim>\<open>simulate\<close> on an object whose \<open>T_sim\<close> is 100. The
  configured horizon is visible only to the constructor and to the solver: when these do
  not read it, it has no effect on what the experiment returns.
\<close>

theorem horizon_overwritten_to_100:
  "list_all (\<lambda>t. \<exists>t0. T_sim (parameters t0) = 100 \<and> t = simulate lib (initializeSim lib t0))
     (experiment_types lib Baseline CorrAct CorrPcvd DiscFac_center DiscFac_spread) \<and>
   ((\<forall>t n. solver lib (set_T_sim n t) = solver lib t) \<and>
    (\<forall>d n. pLvlNextFunc_of lib (d\<lparr>T_sim := n\<rparr>) = pLvlNextFunc_of lib d) \<longrightarrow>
    runRoszypalSchlaffmanExperiment lib (Baseline\<lparr>T_sim := h\<rparr>) CorrAct CorrPcvd
        DiscFac_center DiscFac_spread =
      runRoszypalSchlaffmanExperiment lib Baseline CorrAct CorrPcvd DiscFac_center DiscFac_spread)"
proof (intro conjI impI)
  show "list_all (\<lambda>t. \<exists>t0. T_sim (parameters t0) = 100 \<and> t = simulate lib (initializeSim lib t0))
     (experiment_types lib Baseline CorrAct CorrPcvd DiscFac_center DiscFac_spread)"
    unfolding experiment_types_map list_all_iff
    using simulated_with_horizon_100[where lib = lib and A = CorrAct and P = CorrPcvd] by auto
next
  assume a: "(\<forall>t n. solver lib (set_T_sim n t) = solver lib t) \<and>
    (\<forall>d n. pLvlNextFunc_of lib (d\<lparr>T_sim := n\<rparr>) = pLvlNextFunc_of lib d)"
  have "solve_and_simulate lib CorrAct CorrPcvd
          (Baseline\<lparr>T_sim := h, PrstIncCorr := CorrAct, DiscFac := b\<rparr>) =
        solve_and_simulate lib CorrAct CorrPcvd
          (Baseline\<lparr>PrstIncCorr := CorrAct, DiscFac := b\<rparr>)" for b
  proof -
    have eq: "Baseline\<lparr>T_sim := h, PrstIncCorr := CorrAct, DiscFac := b\<rparr> =
        (Baseline\<lparr>PrstIncCorr := CorrAct, DiscFac := b\<rparr>)\<lparr>T_sim := h\<rparr>"
      by (cases Baseline) simp
    show ?thesis
      unfolding eq by (rule T_sim_ignored) (use a in simp_all)
  qed
  then show "runRoszypalSchlaffmanExperiment lib (Baseline\<lparr>T_sim := h\<rparr>) CorrAct CorrPcvd
        DiscFac_center DiscFac_spread =
      runRoszypalSchlaffmanExperiment lib Baseline CorrAct CorrPcvd DiscFac_center DiscFac_spread"
    by (simp add: runRoszypalSchlaffmanExperiment_def experiment_types_map)
qed

theorem horizon_overwritten_to_100_witness:
  "list_all (\<lambda>t. \<exists>t0. T_sim (parameters t0) = 100 \<and>
                      t = simulate small_HARK (initializeSim small_HARK t0))
     (experiment_types small_HARK (BaselineDict ()) 0.97 0.9831 0.9867 0.0067) \<and>
   (\<forall>t n. solver small_HARK (set_T_sim n t) = solver small_HARK t) \<and>
   (\<forall>d n. pLvlNextFunc_of small_HARK (d\<lparr>T_sim := n\<rparr>) = pLvlNextFunc_of small_HARK d) \<and>
   runRoszypalSchlaffmanExperiment small_HARK ((BaselineDict ())\<lparr>T_sim := 5\<rparr>)
       0.97 0.9831 0.9867 0.0067 =
     runRoszypalSchlaffmanExperiment small_HARK (BaselineDict ()) 0.97 0.9831 0.9867 0.0067"
proof -
  have h: "(\<forall>t n. solver small_HARK (set_T_sim n t) = solver small_HARK t) \<and>
   (\<forall>d n. pLvlNextFunc_of small_HARK (d\<lparr>T_sim := n\<rparr>) = pLvlNextFunc_of small_HARK d)"
    by (simp add: small_HARK_def set_T_sim_def)
  from horizon_overwritten_to_100[where lib = small_HARK and Baseline = "BaselineDict ()"
      and CorrAct = "0.97" and CorrPcvd = "0.9831" and DiscFac_center = "0.9867"
      and DiscFac_spread = "0.0067" and h = 5] h
  show ?thesis
    by blast
qed

subsection \<open>Pooling\<close>

lemma concat_nth_offset:
  "k < length xss \<Longrightarrow> j < length (xss ! k) \<Longrightarrow>
   concat xss ! (sum_list (map length (take k xss)) + j) = xss ! k ! j"
proof (induction xss arbitrary: k)
  case Nil
  then show ?case by simp
next
  case (Cons xs xss)
  show ?case
  proof (cases k)
    case 0
    with Cons.prems show ?thesis by (simp add: nth_append)
  next
    case (Suc k')
    with Cons.prems Cons.IH[of k'] show ?thesis by (simp add: nth_append add.assoc)
  qed
qed

lemma position_split:
  "i < sum_list (ns :: nat list) \<Longrightarrow>
   \<exists>k j. k < length ns \<and> j < ns ! k \<and> i = sum_list (take k ns) + j"
proof (induction ns arbitrary: i)
  case Nil
  then show ?case by simp
next
  case (Cons n ns)
  show ?case
  proof (cases "i < n")
    case True
    then have "0 < length (n # ns) \<and> i < (n # ns) ! 0 \<and> i = sum_list (take 0 (n # ns)) + i"
      by simp
    then show ?thesis by blast
  next
    case False
    with Cons.prems have "i - n < sum_list ns" by simp
    from Cons.IH[OF this] obtain k j
      where kj: "k < length ns" "j < ns ! k" "i - n = sum_list (take k ns) + j"
      by blast
    with False have "Suc k < length (n # ns) \<and> j < (n # ns) ! Suc k \<and>
        i = sum_list (take (Suc k) (n # ns)) + j"
      by simp
    then show ?thesis by blast
  qed
qed

lemma pooled_length:
  "list_all (\<lambda>t. length (X t) = c t) type_list \<Longrightarrow>
   length (pooled X type_list) = sum_list (map c type_list)"
  by (induction type_list) (simp_all add: pooled_def)

lemma pooled_nth:
  assumes "list_all (\<lambda>t. length (X t) = c t) type_list" "k < length type_list"
    "j < c (type_list ! k)"
  shows "pooled X type_list ! (sum_list (map c (take k type_list)) + j) = X (type_list ! k) ! j"
proof -
  from assms(1) have "map c type_list = map length (map X type_list)"
    by (simp add: list_all_iff)
  then have "map c (take k type_list) = map length (take k (map X type_list))"
    by (simp only: take_map[symmetric])
  moreover from assms have "j < length (map X type_list ! k)"
    by (simp add: list_all_length)
  moreover from assms(2) have "k < length (map X type_list)"
    by simp
  ultimately have "concat (map X type_list) ! (sum_list (map c (take k type_list)) + j) =
      map X type_list ! k ! j"
    using concat_nth_offset[of k "map X type_list" j] by simp
  with assms(2) show ?thesis
    by (simp add: pooled_def)
qed

text \<open>
  Claim C6. The pooled arrays are concatenations over \<^verbatim>\<open>type_list\<close> in its order.
  When every type's arrays hold one entry per agent, each position \<open>i\<close> of the pooled
  arrays is agent \<open>j\<close> of one type \<open>k\<close>, the same \<open>k\<close> and \<open>j\<close> for consumption,
  assets, MPC and permanent income; the position is \<open>j\<close> plus the agent counts of the
  types before \<open>k\<close>; and each pooled array has as many entries as the types have agents
  in total, so every type contributes exactly \<open>AgentCount\<close> observations.
\<close>

theorem pooled_arrays_aligned:
  assumes ok: "list_all panel_ok type_list" and i: "i < length (pooled aLvlNow type_list)"
  shows "\<exists>k j. k < length type_list \<and> int j < AgentCount (parameters (type_list ! k)) \<and>
     i = sum_list (map (\<lambda>t. nat (AgentCount (parameters t))) (take k type_list)) + j \<and>
     pooled cLvlNow type_list ! i = cLvlNow (type_list ! k) ! j \<and>
     pooled aLvlNow type_list ! i = aLvlNow (type_list ! k) ! j \<and>
     pooled MPCnow type_list ! i = MPCnow (type_list ! k) ! j \<and>
     pooled pLvlNow type_list ! i = pLvlNow (type_list ! k) ! j \<and>
     length (pooled cLvlNow type_list) = sum_list (map (\<lambda>t. nat (AgentCount (parameters t))) type_list) \<and>
     length (pooled aLvlNow type_list) = sum_list (map (\<lambda>t. nat (AgentCount (parameters t))) type_list) \<and>
     length (pooled MPCnow type_list) = sum_list (map (\<lambda>t. nat (AgentCount (parameters t))) type_list) \<and>
     length (pooled pLvlNow type_list) = sum_list (map (\<lambda>t. nat (AgentCount (parameters t))) type_list)"
proof -
  define c :: "('a, 'b, 'c, 'd) agent \<Rightarrow> nat" where "c = (\<lambda>t. nat (AgentCount (parameters t)))"
  from ok have lc: "list_all (\<lambda>t. length (cLvlNow t) = c t) type_list"
    and la: "list_all (\<lambda>t. length (aLvlNow t) = c t) type_list"
    and lm: "list_all (\<lambda>t. length (MPCnow t) = c t) type_list"
    and lp: "list_all (\<lambda>t. length (pLvlNow t) = c t) type_list"
    by (auto simp: list_all_iff panel_ok_def c_def)
  from i pooled_length[OF la] have "i < sum_list (map c type_list)"
    by simp
  from position_split[OF this] obtain k j
    where k: "k < length type_list" and j: "j < c (type_list ! k)"
      and ieq: "i = sum_list (map c (take k type_list)) + j"
    by (auto simp: take_map)
  from j have "int j < AgentCount (parameters (type_list ! k))"
    by (simp add: c_def)
  with k ieq pooled_nth[OF lc k j] pooled_nth[OF la k j] pooled_nth[OF lm k j] pooled_nth[OF lp k j]
    pooled_length[OF lc] pooled_length[OF la] pooled_length[OF lm] pooled_length[OF lp]
  show ?thesis
    unfolding c_def by blast
qed

theorem pooled_arrays_aligned_witness:
  "list_all panel_ok [type_A, type_E, type_B] \<and> 5 < length (pooled aLvlNow [type_A, type_E, type_B]) \<and>
   (\<exists>k j. k < length [type_A, type_E, type_B] \<and> int j < AgentCount (parameters ([type_A, type_E, type_B] ! k)) \<and>
     5 = sum_list (map (\<lambda>t. nat (AgentCount (parameters t))) (take k [type_A, type_E, type_B])) + j \<and>
     pooled cLvlNow [type_A, type_E, type_B] ! 5 = cLvlNow ([type_A, type_E, type_B] ! k) ! j \<and>
     pooled aLvlNow [type_A, type_E, type_B] ! 5 = aLvlNow ([type_A, type_E, type_B] ! k) ! j \<and>
     pooled MPCnow [type_A, type_E, type_B] ! 5 = MPCnow ([type_A, type_E, type_B] ! k) ! j \<and>
     pooled pLvlNow [type_A, type_E, type_B] ! 5 = pLvlNow ([type_A, type_E, type_B] ! k) ! j \<and>
     length (pooled cLvlNow [type_A, type_E, type_B]) = 8)"
proof -
  have ok: "list_all panel_ok [type_A, type_E, type_B]"
    by (simp add: panel_ok_def type_A_def type_B_def type_E_def BaselineDict_def)
  have i: "5 < length (pooled aLvlNow [type_A, type_E, type_B])"
    by (simp add: pooled_def type_A_def type_B_def type_E_def)
  have n: "sum_list (map (\<lambda>t. nat (AgentCount (parameters t))) [type_A, type_E, type_B]) = 8"
    by (simp add: type_A_def type_B_def type_E_def BaselineDict_def)
  from pooled_arrays_aligned[OF ok i] ok i n show ?thesis
    by (metis (no_types, lifting))
qed

subsection \<open>The returned statistics\<close>

text \<open>
  Claim C7. The first component of the result is the mean of the pooled assets divided
  by the mean of the pooled permanent income, for the experiment's types as for any list
  of simulated types; for the two types of the scenario the pooled means are 5 and 1 and
  the ratio is 5.
\<close>

theorem aggregate_wealth_ratio:
  "fst (cross_section g h type_list) =
     np_mean (pooled aLvlNow type_list) / np_mean (pooled pLvlNow type_list) \<and>
   fst (runRoszypalSchlaffmanExperiment lib Baseline CorrAct CorrPcvd DiscFac_center
          DiscFac_spread) =
     np_mean (pooled aLvlNow
        (experiment_types lib Baseline CorrAct CorrPcvd DiscFac_center DiscFac_spread)) /
     np_mean (pooled pLvlNow
        (experiment_types lib Baseline CorrAct CorrPcvd DiscFac_center DiscFac_spread)) \<and>
   np_mean (pooled aLvlNow [type_A, type_B]) = 5 \<and>
   np_mean (pooled pLvlNow [type_A, type_B]) = 1 \<and>
   fst (cross_section g' h' [type_A, type_B]) = 5"
  by (simp add: runRoszypalSchlaffmanExperiment_def cross_section_def Let_def pooled_def
      np_mean_def type_A_def type_B_def)

text \<open>
  The Gini coefficient that the experiment returns reads a single entry of the extended
  array of Lorenz shares, the share at the first percentile of the grid (0.001).
\<close>

lemma returned_Gini_reads_one_share:
  "fst (snd (snd (cross_section g h type_list))) =
     1 - 2 * (([0] @ g (pooled aLvlNow type_list) (linspace 0.001 0.999 201) @ [1]) ! 1)"
  by (simp add: cross_section_def Let_def np_mean_def)

lemma returned_Lorenz_curve:
  "fst (snd (cross_section g h type_list)) =
     [ [0] @ linspace 0.001 0.999 201 @ [1],
      [0] @ g (pooled aLvlNow type_list) (linspace 0.001 0.999 201) @ [1]]"
  by (simp add: cross_section_def Let_def)

text \<open>
  Claim C1. The claim says that the returned Gini coefficient is 1 minus twice the mean
  of all Lorenz shares on the extended grid, and is 0 (up to the grid's tolerance) when
  every agent holds the same positive wealth. For four agents who each hold 5, with the
  Lorenz shares as the specification describes them, the returned Gini coefficient is
  499/500, while 1 minus twice the mean of the returned Lorenz shares is 0.
\<close>

theorem returned_Gini_of_equal_wealth:
  "fst (snd (snd (cross_section LorenzShares_unweighted h [type_E]))) = 499 / 500 \<and>
   Gini_spec (fst (snd (cross_section LorenzShares_unweighted h [type_E])) ! 1) = 0"
  by (simp add: cross_section_def Let_def pooled_def np_mean_def LorenzShares_unweighted_def
      LorenzShares_def Gini_spec_def EmpiricalDistribution_def total_weight_def
      total_value_def linspace_def upt_rec nth_append type_E_def)

section \<open>Properties of the library's contracts\<close>

subsection \<open>Distribution Discretizer\<close>

lemma bin_midpoints_nth:
  "i < N \<Longrightarrow> bin_midpoints c s N ! i = c + s * (2 * real i + 1 - real N) / real N"
  by (simp add: bin_midpoints_def inverse_cdf_def field_simps)

lemma length_bin_midpoints [simp]: "length (bin_midpoints c s N) = N"
  by (simp add: bin_midpoints_def)

lemma bin_midpoints_increasing:
  assumes "0 < s"
  shows "sorted_wrt (<) (bin_midpoints c s N)"
proof -
  have "bin_midpoints c s N ! i < bin_midpoints c s N ! j" if "i < j" "j < N" for i j
  proof -
    from that have N: "0 < real N" and ij: "real i < real j" by simp_all
    from ij assms have "s * (2 * real i + 1 - real N) < s * (2 * real j + 1 - real N)"
      by simp
    with N have "s * (2 * real i + 1 - real N) / real N < s * (2 * real j + 1 - real N) / real N"
      by (simp add: divide_strict_right_mono)
    with that show ?thesis by (simp add: bin_midpoints_nth)
  qed
  then show ?thesis by (simp add: sorted_wrt_iff_nth_less)
qed

lemma bin_midpoints_spacing:
  assumes "Suc i < N"
  shows "bin_midpoints c s N ! Suc i - bin_midpoints c s N ! i = 2 * s / real N"
proof -
  from assms have "i < N" by simp
  with assms show ?thesis
    by (simp add: bin_midpoints_nth field_simps)
qed

lemma bin_midpoints_inside:
  assumes "0 < s" "i < N"
  shows "c - s < bin_midpoints c s N ! i \<and> bin_midpoints c s N ! i < c + s"
proof -
  from assms have N: "0 < real N" by simp
  have "- real N < 2 * real i + 1 - real N" by simp
  moreover from assms have "2 * real i + 1 - real N < real N" by simp
  ultimately have "- 1 < (2 * real i + 1 - real N) / real N" "(2 * real i + 1 - real N) / real N < 1"
    using N by (simp_all add: field_simps)
  with assms(1) have "s * (- 1) < s * ((2 * real i + 1 - real N) / real N)"
    "s * ((2 * real i + 1 - real N) / real N) < s * 1"
    by (simp_all only: mult_strict_left_mono)
  with assms(2) show ?thesis
    by (simp add: bin_midpoints_nth)
qed

lemma bin_midpoints_symmetric:
  assumes "i < N"
  shows "bin_midpoints c s N ! i + bin_midpoints c s N ! (N - 1 - i) = 2 * c"
proof -
  from assms have r: "real (N - 1 - i) = real N - 1 - real i" and N: "0 < real N" and "N - 1 - i < N"
    by (simp_all add: of_nat_diff)
  with assms show ?thesis
    by (simp add: bin_midpoints_nth field_simps)
qed

text \<open>
  Claim C8, for a positive spread. For every count \<open>N \<ge> 1\<close> and every spread
  \<open>s > 0\<close> the Discretizer returns exactly \<open>N\<close> values and \<open>N\<close> weights
  \<open>1/N\<close>; the values are strictly increasing in the bin index, evenly spaced (by
  \<open>2s/N\<close>), strictly inside the open interval \<open>(c - s, c + s)\<close>, and symmetric
  about \<open>c\<close>.
\<close>

theorem discretizer_values:
  assumes "1 \<le> N" and "0 < spread"
  shows "\<exists>X pmf. Discretizer center spread N = Inr (X, pmf) \<and>
     int (length X) = N \<and> int (length pmf) = N \<and>
     list_all (\<lambda>w. w = 1 / real_of_int N) pmf \<and>
     sorted_wrt (<) X \<and>
     (\<forall>i. Suc i < length X \<longrightarrow> X ! Suc i - X ! i = 2 * spread / real_of_int N) \<and>
     list_all (\<lambda>x. center - spread < x \<and> x < center + spread) X \<and>
     (\<forall>i<length X. X ! i + X ! (length X - 1 - i) = 2 * center)"
proof -
  from assms have D: "Discretizer center spread N =
      Inr (bin_midpoints center spread (nat N), replicate (nat N) (1 / real_of_int N))"
    by (simp add: Discretizer_def)
  from assms(1) have rN: "real (nat N) = real_of_int N" by simp
  have inside: "list_all (\<lambda>x. center - spread < x \<and> x < center + spread)
      (bin_midpoints center spread (nat N))"
    using bin_midpoints_inside[OF assms(2)] by (simp add: list_all_length)
  have weights: "list_all (\<lambda>w. w = 1 / real_of_int N) (replicate (nat N) (1 / real_of_int N))"
    by (simp add: list_all_iff)
  from assms(1) have len: "int (length (bin_midpoints center spread (nat N))) = N"
    "int (length (replicate (nat N) (1 / real_of_int N))) = N"
    by simp_all
  show ?thesis
    using D len weights inside bin_midpoints_increasing[OF assms(2), of center "nat N"]
      bin_midpoints_spacing[of _ "nat N" center spread]
      bin_midpoints_symmetric[of _ "nat N" center spread] rN
    by (intro exI[of _ "bin_midpoints center spread (nat N)"]
        exI[of _ "replicate (nat N) (1 / real_of_int N)"]) simp
qed

theorem discretizer_values_witness:
  "(1::int) \<le> 7 \<and> (0::real) < 67 / 10000 \<and>
   (\<exists>X pmf. Discretizer (9867 / 10000) (67 / 10000) 7 = Inr (X, pmf) \<and>
     int (length X) = 7 \<and> int (length pmf) = 7 \<and>
     list_all (\<lambda>w. w = 1 / 7) pmf \<and> sorted_wrt (<) X \<and>
     list_all (\<lambda>x. 9867 / 10000 - 67 / 10000 < x \<and> x < 9867 / 10000 + 67 / 10000) X)"
proof -
  have h: "(1::int) \<le> 7" "(0::real) < 67 / 10000" by simp_all
  from discretizer_values[OF h, of "9867 / 10000"] h show ?thesis
    by auto
qed

text \<open>
  A spread of zero is accepted (only a negative spread is rejected); all values are then
  equal to the centre: they are not strictly increasing and not inside the (empty) open
  interval.
\<close>

theorem discretizer_zero_spread:
  "Discretizer 1 0 2 = Inr ([1, 1], [1 / 2, 1 / 2]) \<and>
   \<not> sorted_wrt (<) (fst (projr (Discretizer 1 0 2)))"
  by (simp add: Discretizer_def bin_midpoints_def inverse_cdf_def numeral_2_eq_2)


subsection \<open>Lorenz shares\<close>

lemma total_weight_nonneg:
  "list_all (\<lambda>(v, w). 0 \<le> w) xs \<Longrightarrow> 0 \<le> total_weight xs"
  by (induction xs) (auto simp: total_weight_def)

lemma total_value_nonneg:
  "list_all (\<lambda>(v, w). 0 \<le> v) xs \<Longrightarrow> list_all (\<lambda>(v, w). 0 \<le> w) xs \<Longrightarrow>
   0 \<le> total_value xs"
  by (induction xs) (auto simp: total_value_def)

lemma zip_weights_nonneg:
  "list_all (\<lambda>w. 0 \<le> w) weights \<Longrightarrow> list_all (\<lambda>(v, w). (0::real) \<le> w) (zip vals weights)"
  by (auto simp: list_all_iff dest: set_zip_rightD)

lemma zip_values_nonneg:
  "list_all (\<lambda>v. 0 \<le> v) vals \<Longrightarrow> list_all (\<lambda>(v, w). (0::real) \<le> v) (zip vals weights)"
  by (auto simp: list_all_iff dest: set_zip_leftD)

lemma held_by_bottom_nothing:
  "m \<le> 0 \<Longrightarrow> list_all (\<lambda>(v, w). 0 \<le> w) xs \<Longrightarrow> held_by_bottom m xs = 0"
proof (induction xs arbitrary: m)
  case Nil
  show ?case by simp
next
  case (Cons x xs)
  obtain v w where x: "x = (v, w)" by (cases x)
  with Cons.prems have w: "0 \<le> w" and rest: "list_all (\<lambda>(v, w). 0 \<le> w) xs" by simp_all
  from w Cons.prems(1) have "min w (max 0 m) = 0" "m - w \<le> 0" by simp_all
  with Cons.IH[OF _ rest] x show ?case by simp
qed

lemma held_by_bottom_everything:
  "total_weight xs \<le> m \<Longrightarrow> list_all (\<lambda>(v, w). 0 \<le> w) xs \<Longrightarrow>
   held_by_bottom m xs = total_value xs"
proof (induction xs arbitrary: m)
  case Nil
  show ?case by (simp add: total_value_def)
next
  case (Cons x xs)
  obtain v w where x: "x = (v, w)" by (cases x)
  with Cons.prems have w: "0 \<le> w" and rest: "list_all (\<lambda>(v, w). 0 \<le> w) xs" by simp_all
  from rest have "0 \<le> total_weight xs"
    by (rule total_weight_nonneg)
  with Cons.prems(1) x have m: "w \<le> m" "total_weight xs \<le> m - w"
    by (simp_all add: total_weight_def)
  with w have "min w (max 0 m) = w" by simp
  with Cons.IH[OF m(2) rest] x show ?case by (simp add: total_value_def)
qed

lemma held_by_bottom_mono:
  "m \<le> m' \<Longrightarrow> list_all (\<lambda>(v, w). 0 \<le> v) xs \<Longrightarrow> held_by_bottom m xs \<le> held_by_bottom m' xs"
proof (induction xs arbitrary: m m')
  case Nil
  show ?case by simp
next
  case (Cons x xs)
  obtain v w where x: "x = (v, w)" by (cases x)
  with Cons.prems have v: "0 \<le> v" and rest: "list_all (\<lambda>(v, w). 0 \<le> v) xs" by simp_all
  from Cons.prems(1) have "min w (max 0 m) \<le> min w (max 0 m')" by simp
  with v have "v * min w (max 0 m) \<le> v * min w (max 0 m')"
    by (rule mult_left_mono[rotated])
  moreover from Cons.prems(1) have "held_by_bottom (m - w) xs \<le> held_by_bottom (m' - w) xs"
    by (intro Cons.IH rest) simp
  ultimately show ?case using x by simp
qed

lemma mset_EmpiricalDistribution:
  "mset (EmpiricalDistribution vals weights) = mset (zip vals weights)"
  by (simp add: EmpiricalDistribution_def)

lemma total_value_EmpiricalDistribution:
  "total_value (EmpiricalDistribution vals weights) = total_value (zip vals weights)"
  unfolding total_value_def
  by (metis mset_EmpiricalDistribution mset_map sum_mset_sum_list)

lemma total_weight_EmpiricalDistribution:
  "total_weight (EmpiricalDistribution vals weights) = total_weight (zip vals weights)"
  unfolding total_weight_def
  by (metis mset_EmpiricalDistribution mset_map sum_mset_sum_list)

lemma set_EmpiricalDistribution:
  "set (EmpiricalDistribution vals weights) = set (zip vals weights)"
  by (simp add: EmpiricalDistribution_def)

lemma length_LorenzShares [simp]:
  "length (LorenzShares vals weights percentiles) = length percentiles"
  by (simp add: LorenzShares_def Let_def)

lemma LorenzShares_nth:
  "i < length percentiles \<Longrightarrow>
   LorenzShares vals weights percentiles ! i =
     held_by_bottom (percentiles ! i * total_weight (zip vals weights))
       (EmpiricalDistribution vals weights) / total_value (zip vals weights)"
  by (simp add: LorenzShares_def Let_def total_value_EmpiricalDistribution
      total_weight_EmpiricalDistribution)

text \<open>
  Claim C5, for samples without negative values. For weights that are not negative and a
  total value that is not zero, the Lorenz shares on any percentile grid are exactly 0 at
  percentile 0 and exactly 1 at percentile 1; when moreover no value is negative, the
  shares are non-decreasing in the percentile.
\<close>

theorem Lorenz_shares_endpoints_monotone:
  assumes weights: "list_all (\<lambda>w. 0 \<le> w) weights"
    and total: "total_value (zip vals weights) \<noteq> 0"
  shows "length (LorenzShares vals weights percentiles) = length percentiles \<and>
    (\<forall>i<length percentiles.
       (percentiles ! i = 0 \<longrightarrow> LorenzShares vals weights percentiles ! i = 0) \<and>
       (percentiles ! i = 1 \<longrightarrow> LorenzShares vals weights percentiles ! i = 1)) \<and>
    (list_all (\<lambda>v. 0 \<le> v) vals \<longrightarrow>
       (\<forall>i<length percentiles. \<forall>j<length percentiles.
          percentiles ! i \<le> percentiles ! j \<longrightarrow>
          LorenzShares vals weights percentiles ! i \<le> LorenzShares vals weights percentiles ! j))"
proof (intro conjI allI impI)
  let ?E = "EmpiricalDistribution vals weights"
  let ?W = "total_weight (zip vals weights)"
  let ?T = "total_value (zip vals weights)"
  from zip_weights_nonneg[OF weights, of vals] have w: "list_all (\<lambda>(v, w). 0 \<le> w) ?E"
    by (simp add: list_all_iff set_EmpiricalDistribution)
  show "length (LorenzShares vals weights percentiles) = length percentiles"
    by simp
  {
    fix i assume i: "i < length percentiles" and p: "percentiles ! i = 0"
    from held_by_bottom_nothing[OF _ w, of 0] i p
    show "LorenzShares vals weights percentiles ! i = 0"
      by (simp add: LorenzShares_nth)
  }
  {
    fix i assume i: "i < length percentiles" and p: "percentiles ! i = 1"
    have "held_by_bottom ?W ?E = ?T"
      using held_by_bottom_everything[OF _ w, of ?W]
      by (simp add: total_weight_EmpiricalDistribution total_value_EmpiricalDistribution)
    with i p total show "LorenzShares vals weights percentiles ! i = 1"
      by (simp add: LorenzShares_nth)
  }
  {
    fix i j
    assume vals: "list_all (\<lambda>v. 0 \<le> v) vals"
      and i: "i < length percentiles" and j: "j < length percentiles"
      and le: "percentiles ! i \<le> percentiles ! j"
    from zip_values_nonneg[OF vals, of weights] have v: "list_all (\<lambda>(v, w). 0 \<le> v) ?E"
      by (simp add: list_all_iff set_EmpiricalDistribution)
    from zip_weights_nonneg[OF weights, of vals] have "0 \<le> ?W"
      by (rule total_weight_nonneg)
    with le have "percentiles ! i * ?W \<le> percentiles ! j * ?W"
      by (rule mult_right_mono)
    from held_by_bottom_mono[OF this v]
    have h: "held_by_bottom (percentiles ! i * ?W) ?E \<le> held_by_bottom (percentiles ! j * ?W) ?E" .
    from zip_values_nonneg[OF vals, of weights] zip_weights_nonneg[OF weights, of vals]
    have "0 \<le> ?T"
      by (rule total_value_nonneg)
    with total have "0 < ?T" by simp
    with h i j show "LorenzShares vals weights percentiles ! i \<le> LorenzShares vals weights percentiles ! j"
      by (simp add: LorenzShares_nth divide_right_mono)
  }
qed

theorem Lorenz_shares_endpoints_monotone_witness:
  "list_all (\<lambda>w. 0 \<le> w) [1, 2, 1 :: real] \<and> total_value (zip [3, 1, 2] [1, 2, 1]) \<noteq> 0 \<and>
   list_all (\<lambda>v. 0 \<le> v) [3, 1, 2 :: real] \<and>
   LorenzShares [3, 1, 2] [1, 2, 1] [0, 1 / 4, 1 / 2, 1] ! 0 = 0 \<and>
   LorenzShares [3, 1, 2] [1, 2, 1] [0, 1 / 4, 1 / 2, 1] ! 3 = 1 \<and>
   LorenzShares [3, 1, 2] [1, 2, 1] [0, 1 / 4, 1 / 2, 1] ! 1 \<le>
     LorenzShares [3, 1, 2] [1, 2, 1] [0, 1 / 4, 1 / 2, 1] ! 2"
proof -
  have h: "list_all (\<lambda>w. 0 \<le> w) [1, 2, 1 :: real]" "total_value (zip [3, 1, 2] [1, 2, 1]) \<noteq> 0"
    "list_all (\<lambda>v. 0 \<le> v) [3, 1, 2 :: real]"
    by (simp_all add: total_value_def)
  from Lorenz_shares_endpoints_monotone[OF h(1,2), of "[0, 1 / 4, 1 / 2, 1]"] h show ?thesis
    by (simp add: nth_Cons')
qed

text \<open>
  Claim C5 as stated fails for samples with negative values, which the contract accepts:
  for the two values \<open>-1\<close> and \<open>3\<close> the share of the bottom half is \<open>-1/2\<close>, below
  the share 0 at percentile 0.
\<close>

theorem Lorenz_shares_negative_wealth:
  "LorenzShares [-1, 3] [1, 1] [0, 1 / 2, 1] = [0, - (1 / 2), 1] \<and>
   \<not> sorted (LorenzShares [-1, 3] [1, 1] [0, 1 / 2, 1])"
  by (simp add: LorenzShares_def EmpiricalDistribution_def total_weight_def total_value_def)


section \<open>Properties of the percentile-bucketed average\<close>

subsection \<open>Equal weights\<close>

lemma unit_weights:
  "list_all (\<lambda>(v, w). w = 1) (EmpiricalDistribution g (replicate (length g) 1))"
  by (auto simp: list_all_iff EmpiricalDistribution_def dest: set_zip_rightD)

lemma unit_weights_length [simp]:
  "length (EmpiricalDistribution g (replicate (length g) 1)) = length g"
  by (simp add: EmpiricalDistribution_def)

lemma unit_weights_values:
  "set (map fst (EmpiricalDistribution g (replicate (length g) 1))) = set g"
proof -
  have "set (map fst (EmpiricalDistribution g (replicate (length g) 1))) =
      fst ` set (zip g (replicate (length g) (1::real)))"
    by (simp add: EmpiricalDistribution_def)
  also have "\<dots> = set (map fst (zip g (replicate (length g) (1::real))))"
    by (simp only: set_map)
  also have "\<dots> = set g"
    by simp
  finally show ?thesis .
qed

lemma sorted_EmpiricalDistribution:
  "sorted (map fst (EmpiricalDistribution vals weights))"
  by (simp add: EmpiricalDistribution_def)

lemma total_weight_unit:
  "list_all (\<lambda>(v, w). w = 1) ps \<Longrightarrow> total_weight ps = real (length ps)"
  by (induction ps) (auto simp: total_weight_def)

lemma sorted_between_hd_last:
  "sorted ys \<Longrightarrow> y \<in> set ys \<Longrightarrow> hd ys \<le> y \<and> y \<le> (last ys :: real)"
proof (induction ys)
  case Nil
  then show ?case by simp
next
  case (Cons a ys)
  show ?case
  proof (cases "ys = []")
    case True
    with Cons.prems show ?thesis by simp
  next
    case False
    then have "last ys \<in> set ys" by simp
    with Cons.prems(1) have "a \<le> last ys" by simp
    with Cons False show ?thesis by auto
  qed
qed

subsection \<open>Percentiles 0 and 1\<close>

lemma first_reaching_one:
  "list_all (\<lambda>(v, w). w = 1) ps \<Longrightarrow> ps \<noteq> [] \<Longrightarrow> cum + real (length ps) = W \<Longrightarrow> 0 \<le> cum \<Longrightarrow>
   first_reaching 1 W cum ps = Some (fst (last ps))"
proof (induction ps arbitrary: cum)
  case Nil
  then show ?case by simp
next
  case (Cons x ps)
  obtain v w where x: "x = (v, w)" by (cases x)
  with Cons.prems(1) have w: "w = 1" and rest: "list_all (\<lambda>(v, w). w = 1) ps" by simp_all
  show ?case
  proof (cases "ps = []")
    case True
    with Cons.prems x w have "(cum + w) / W = 1" by simp
    with True x show ?thesis by simp
  next
    case False
    then have lp: "1 \<le> real (length ps)" by (cases ps) simp_all
    from Cons.prems(3) have W: "W = cum + 1 + real (length ps)" by simp
    from W lp Cons.prems(4) w have "cum + w < W" "0 < W" by linarith+
    then have "\<not> 1 \<le> (cum + w) / W" by simp
    moreover from Cons.prems(3,4) w have "(cum + w) + real (length ps) = W" "0 \<le> cum + w"
      by simp_all
    ultimately show ?thesis
      using Cons.IH[OF rest False, of "cum + w"] x False by simp
  qed
qed

lemma WeightedPercentile_unit_0:
  assumes "g \<noteq> []"
  shows "WeightedPercentile g (replicate (length g) 1) 0 =
     Inr (fst (hd (EmpiricalDistribution g (replicate (length g) 1))))"
proof -
  let ?E = "EmpiricalDistribution g (replicate (length g) 1)"
  from assms have ne: "?E \<noteq> []" by (metis unit_weights_length length_0_conv)
  then obtain v w rest where E: "?E = (v, w) # rest" by (cases ?E) auto
  with unit_weights[of g] have w: "w = 1" by simp
  have W: "total_weight ?E = real (length g)"
    using total_weight_unit[OF unit_weights, of g] by simp
  from assms have "0 < real (length g)" by simp
  then have "(0::real) \<le> (0 + 1) / real (length g)" by simp
  with E w W have "first_reaching 0 (total_weight ?E) 0 ?E = Some v" by simp
  moreover from assms have "\<not> list_ex (\<lambda>w. w < 0) (replicate (length g) (1::real))"
    "sum_list (replicate (length g) (1::real)) \<noteq> 0"
    by (simp_all add: list_ex_iff sum_list_replicate)
  ultimately show ?thesis
    using ne E by (simp add: WeightedPercentile_def Let_def)
qed

lemma WeightedPercentile_unit_1:
  assumes "g \<noteq> []"
  shows "WeightedPercentile g (replicate (length g) 1) 1 =
     Inr (fst (last (EmpiricalDistribution g (replicate (length g) 1))))"
proof -
  let ?E = "EmpiricalDistribution g (replicate (length g) 1)"
  from assms have ne: "?E \<noteq> []" by (metis unit_weights_length length_0_conv)
  have W: "total_weight ?E = real (length g)"
    using total_weight_unit[OF unit_weights, of g] by simp
  have "first_reaching 1 (total_weight ?E) 0 ?E = Some (fst (last ?E))"
    by (rule first_reaching_one[OF unit_weights ne]) (simp_all add: W)
  moreover from assms have "\<not> list_ex (\<lambda>w. w < 0) (replicate (length g) (1::real))"
    "sum_list (replicate (length g) (1::real)) \<noteq> 0"
    by (simp_all add: list_ex_iff sum_list_replicate)
  ultimately show ?thesis
    using ne by (simp add: WeightedPercentile_def Let_def)
qed

lemma WeightedPercentile_unit_total:
  assumes "g \<noteq> []"
  shows "\<exists>v. WeightedPercentile g (replicate (length g) 1) p = Inr v"
proof -
  let ?E = "EmpiricalDistribution g (replicate (length g) 1)"
  from assms have ne: "?E \<noteq> []" by (metis unit_weights_length length_0_conv)
  moreover from assms have "\<not> list_ex (\<lambda>w. w < 0) (replicate (length g) (1::real))"
    "sum_list (replicate (length g) (1::real)) \<noteq> 0"
    by (simp_all add: list_ex_iff sum_list_replicate)
  ultimately show ?thesis
    by (simp add: WeightedPercentile_def Let_def split: option.splits)
qed

lemma WeightedPercentile_Inr_nonempty:
  "WeightedPercentile g (replicate (length g) 1) p = Inr v \<Longrightarrow> g \<noteq> []"
  by (auto simp: WeightedPercentile_def EmpiricalDistribution_def)

lemma bucket_full_range:
  assumes "xs \<noteq> []"
  shows "bucket xs xs (fst (hd (EmpiricalDistribution xs (replicate (length xs) 1))))
           (fst (last (EmpiricalDistribution xs (replicate (length xs) 1)))) = xs"
proof -
  let ?E = "EmpiricalDistribution xs (replicate (length xs) 1)"
  from assms have ne: "?E \<noteq> []" by (metis unit_weights_length length_0_conv)
  then have hl: "hd (map fst ?E) = fst (hd ?E)" "last (map fst ?E) = fst (last ?E)"
    by (simp_all add: hd_map last_map)
  have "fst (hd ?E) \<le> x \<and> x \<le> fst (last ?E)" if "x \<in> set xs" for x
    using sorted_between_hd_last[OF sorted_EmpiricalDistribution, of x xs "replicate (length xs) 1"]
      that hl unit_weights_values[of xs] by simp
  then have "filter (\<lambda>(t, g). fst (hd ?E) \<le> g \<and> g \<le> fst (last ?E)) (zip xs xs) = zip xs xs"
    by (auto simp: filter_id_conv zip_same)
  then show ?thesis
    by (simp add: bucket_def)
qed

lemma SubpopulationAverage_full_sample:
  assumes "xs \<noteq> []"
  shows "SubpopulationAverage xs xs [(0, 1)] = Inr [np_mean xs]"
  using assms
  by (simp add: bucket_average_def WeightedPercentile_unit_0 WeightedPercentile_unit_1
      bucket_full_range)

subsection \<open>Results and errors\<close>

lemma bucket_average_Inr:
  "bucket_average t g c = Inr a \<Longrightarrow>
   \<exists>lo_v hi_v. WeightedPercentile g (replicate (length g) 1) (fst c) = Inr lo_v \<and>
     WeightedPercentile g (replicate (length g) 1) (snd c) = Inr hi_v \<and>
     bucket t g lo_v hi_v \<noteq> [] \<and> a = np_mean (bucket t g lo_v hi_v)"
  by (auto simp: bucket_average_def split: sum.splits if_splits)

lemma bucket_average_empty:
  "WeightedPercentile g (replicate (length g) 1) (fst c) = Inr lo_v \<Longrightarrow>
   WeightedPercentile g (replicate (length g) 1) (snd c) = Inr hi_v \<Longrightarrow>
   bucket t g lo_v hi_v = [] \<Longrightarrow> bucket_average t g c = Inl EmptyBucketError"
  by (simp add: bucket_average_def)

lemma bucket_average_error:
  "g \<noteq> [] \<Longrightarrow> bucket_average t g c = Inl e \<Longrightarrow> e = EmptyBucketError"
  using WeightedPercentile_unit_total[of g "fst c"] WeightedPercentile_unit_total[of g "snd c"]
  by (auto simp: bucket_average_def split: if_splits)

lemma SubpopulationAverage_Inr:
  "SubpopulationAverage t g cs = Inr r \<Longrightarrow>
   length r = length cs \<and> (\<forall>j<length cs. bucket_average t g (cs ! j) = Inr (r ! j))"
proof (induction cs arbitrary: r)
  case Nil
  then show ?case by simp
next
  case (Cons c cs)
  from Cons.prems obtain a r' where a: "bucket_average t g c = Inr a"
    and r': "SubpopulationAverage t g cs = Inr r'" and r: "r = a # r'"
    by (auto split: sum.splits)
  from Cons.IH[OF r'] a r show ?case
    by (auto simp: nth_Cons')
qed

lemma SubpopulationAverage_error:
  "g \<noteq> [] \<Longrightarrow> j < length cs \<Longrightarrow> bucket_average t g (cs ! j) = Inl e \<Longrightarrow>
   SubpopulationAverage t g cs = Inl EmptyBucketError"
proof (induction cs arbitrary: j)
  case Nil
  then show ?case by simp
next
  case (Cons c cs)
  show ?case
  proof (cases "bucket_average t g c")
    case (Inl e')
    with bucket_average_error[OF Cons.prems(1) this] show ?thesis by simp
  next
    case (Inr a)
    with Cons.prems obtain j' where j': "j = Suc j'" by (cases j) auto
    with Cons.prems Cons.IH[of j'] Inr show ?thesis by simp
  qed
qed

text \<open>
  Claim C9. When SubpopulationAverage returns, the result has one entry per cutoff pair,
  in input order, and entry \<open>j\<close> is the unweighted mean of the target values of the
  agents whose grouping value lies in the inclusive range given by the two percentiles
  of the grouping variable. The single cutoff \<open>(0, 1)\<close> with the target equal to the
  grouping variable gives the unweighted mean of the whole (non-empty) sample. A cutoff
  pair whose bucket holds no agent makes the whole computation fail with
  \<^verbatim>\<open>EmptyBucketError\<close>; no number is returned for it.
\<close>

theorem subpopulation_average:
  "(SubpopulationAverage targetValues groupValues cutoffs = Inr r \<longrightarrow>
      length r = length cutoffs \<and>
      (\<forall>j<length cutoffs. \<exists>lo_v hi_v.
         WeightedPercentile groupValues (replicate (length groupValues) 1) (fst (cutoffs ! j)) = Inr lo_v \<and>
         WeightedPercentile groupValues (replicate (length groupValues) 1) (snd (cutoffs ! j)) = Inr hi_v \<and>
         r ! j = np_mean (bucket targetValues groupValues lo_v hi_v))) \<and>
   (xs \<noteq> [] \<longrightarrow> SubpopulationAverage xs xs [(0, 1)] = Inr [np_mean xs]) \<and>
   (k < length cutoffs' \<and>
    WeightedPercentile groupValues' (replicate (length groupValues') 1) (fst (cutoffs' ! k)) = Inr lo \<and>
    WeightedPercentile groupValues' (replicate (length groupValues') 1) (snd (cutoffs' ! k)) = Inr hi \<and>
    bucket targetValues' groupValues' lo hi = [] \<longrightarrow>
    SubpopulationAverage targetValues' groupValues' cutoffs' = Inl EmptyBucketError)"
proof (intro conjI impI)
  assume "SubpopulationAverage targetValues groupValues cutoffs = Inr r"
  from SubpopulationAverage_Inr[OF this]
  show "length r = length cutoffs" 
    and "\<forall>j<length cutoffs. \<exists>lo_v hi_v.
         WeightedPercentile groupValues (replicate (length groupValues) 1) (fst (cutoffs ! j)) = Inr lo_v \<and>
         WeightedPercentile groupValues (replicate (length groupValues) 1) (snd (cutoffs ! j)) = Inr hi_v \<and>
         r ! j = np_mean (bucket targetValues groupValues lo_v hi_v)"
    by (simp, meson bucket_average_Inr)
next
  assume "xs \<noteq> []"
  then show "SubpopulationAverage xs xs [(0, 1)] = Inr [np_mean xs]"
    by (rule SubpopulationAverage_full_sample)
next
  assume a: "k < length cutoffs' \<and>
    WeightedPercentile groupValues' (replicate (length groupValues') 1) (fst (cutoffs' ! k)) = Inr lo \<and>
    WeightedPercentile groupValues' (replicate (length groupValues') 1) (snd (cutoffs' ! k)) = Inr hi \<and>
    bucket targetValues' groupValues' lo hi = []"
  then have "groupValues' \<noteq> []"
    by (blast dest: WeightedPercentile_Inr_nonempty)
  moreover from a have "bucket_average targetValues' groupValues' (cutoffs' ! k) = Inl EmptyBucketError"
    by (blast intro: bucket_average_empty)
  ultimately show "SubpopulationAverage targetValues' groupValues' cutoffs' = Inl EmptyBucketError"
    using a by (blast intro: SubpopulationAverage_error)
qed


theorem subpopulation_average_witness:
  "SubpopulationAverage [1, 2, 3, 4, 5] [5, 4, 3, 2, 1] quintiles = Inr [5, 9 / 2, 7 / 2, 5 / 2, 3 / 2] \<and>
   length [5, 9 / 2, 7 / 2, 5 / 2, 3 / 2 :: real] = length quintiles \<and>
   [2, 1, 3 :: real] \<noteq> [] \<and>
   SubpopulationAverage [2, 1, 3] [2, 1, 3] [(0, 1)] = Inr [2] \<and>
   (0::nat) < length [(9 / 10 :: real, 1 / 10 :: real)] \<and>
   WeightedPercentile [1, 2, 3] (replicate (length [1, 2, 3 :: real]) 1) (9 / 10) = Inr 3 \<and>
   WeightedPercentile [1, 2, 3] (replicate (length [1, 2, 3 :: real]) 1) (1 / 10) = Inr 1 \<and>
   bucket [10, 20, 30] [1, 2, 3] 3 1 = [] \<and>
   SubpopulationAverage [10, 20, 30] [1, 2, 3] [(9 / 10, 1 / 10)] = Inl EmptyBucketError"
proof -
  have h1: "SubpopulationAverage [1, 2, 3, 4, 5] [5, 4, 3, 2, 1] quintiles =
      Inr [5, 9 / 2, 7 / 2, 5 / 2, 3 / 2]"
    by (simp add: quintiles_def bucket_average_def WeightedPercentile_def
        EmpiricalDistribution_def total_weight_def bucket_def np_mean_def)
  have h2: "[2, 1, 3 :: real] \<noteq> []" by simp
  have h3: "(0::nat) < length [(9 / 10 :: real, 1 / 10 :: real)]"
    "WeightedPercentile [1, 2, 3] (replicate (length [1, 2, 3 :: real]) 1)
       (fst ([(9 / 10, 1 / 10)] ! 0)) = Inr 3"
    "WeightedPercentile [1, 2, 3] (replicate (length [1, 2, 3 :: real]) 1)
       (snd ([(9 / 10, 1 / 10)] ! 0)) = Inr 1"
    "bucket [10, 20, 30] [1, 2, 3] 3 1 = []"
    by (simp_all add: WeightedPercentile_def EmpiricalDistribution_def total_weight_def
        bucket_def)
  from subpopulation_average[where targetValues = "[1, 2, 3, 4, 5]" and groupValues = "[5, 4, 3, 2, 1]"
      and cutoffs = quintiles and r = "[5, 9 / 2, 7 / 2, 5 / 2, 3 / 2]" and xs = "[2, 1, 3]"
      and k = 0 and cutoffs' = "[(9 / 10, 1 / 10)]" and groupValues' = "[1, 2, 3]"
      and lo = 3 and hi = 1 and targetValues' = "[10, 20, 30]"] h1 h2 h3
  show ?thesis
    by (simp add: np_mean_def)
qed


end
